theory Spec2Isabelle
  imports Complex_Main
begin

section \<open>The AlertGate dashboard client (src/web/static/dashboard.js)\<close>

text \<open>
  The dashboard is one JavaScript class, \<^verbatim>\<open>AlertGateDashboard\<close>. Its methods are embedded
  here as functions on an explicit state: the fields of \<^verbatim>\<open>this\<close>, the elements of the page
  the methods write to, and the sockets and timers the browser holds for the page.
  An exception thrown by a method is a value of the result, next to the state the method
  had reached when it threw.
\<close>

subsection \<open>JavaScript values\<close>

text \<open>
  A value produced by \<^verbatim>\<open>JSON.parse\<close>, or \<^verbatim>\<open>undefined\<close> (what reading a missing property
  gives). A JSON number is taken at its exact rational value: the rounding to IEEE doubles
  is not modelled, nor is the negative zero. An object is the list of its own properties,
  each key once, in the order \<^verbatim>\<open>Object.entries\<close> lists them.
\<close>

datatype jsval =
    JUndefined
  | JNull
  | JBool bool
  | JNum rat
  | JStr string
  | JArr "jsval list"
  | JObj "(string \<times> jsval) list"

datatype js_error = SyntaxError | TypeError

text \<open>Reading a property of \<^verbatim>\<open>null\<close> or \<^verbatim>\<open>undefined\<close> throws a TypeError.\<close>

fun nullish :: "jsval \<Rightarrow> bool" where
  "nullish JUndefined = True"
| "nullish JNull = True"
| "nullish _ = False"

text \<open>
  \<^verbatim>\<open>v.k\<close> for the property names the dashboard reads (none of them is a built-in property
  of a string, an array or a number). The caller decides what happens on a nullish \<open>v\<close>.
\<close>

fun getProp :: "jsval \<Rightarrow> string \<Rightarrow> jsval" where
  "getProp (JObj kvs) k = (case map_of kvs k of Some v \<Rightarrow> v | None \<Rightarrow> JUndefined)"
| "getProp _ k = JUndefined"

fun truthy :: "jsval \<Rightarrow> bool" where
  "truthy JUndefined = False"
| "truthy JNull = False"
| "truthy (JBool b) = b"
| "truthy (JNum q) = (q \<noteq> 0)"
| "truthy (JStr s) = (s \<noteq> [])"
| "truthy (JArr xs) = True"
| "truthy (JObj kvs) = True"

text \<open>\<^verbatim>\<open>typeof v === 'number'\<close>\<close>

fun is_number :: "jsval \<Rightarrow> bool" where
  "is_number (JNum q) = True"
| "is_number _ = False"

text \<open>\<^verbatim>\<open>a || b\<close>\<close>

definition js_or :: "jsval \<Rightarrow> jsval \<Rightarrow> jsval" where
  "js_or a b = (if truthy a then a else b)"

subsection \<open>Numbers and their conversion to strings\<close>

text \<open>
  The result of arithmetic is a rational or one of the three special values of a
  JavaScript number. \<open>digit_char d\<close> is the digit \<open>d\<close>, for \<open>d\<close> below 10.
\<close>

datatype number = Finite rat | PosInfinity | NegInfinity | NaN

definition digit_char :: "nat \<Rightarrow> char" where
  "digit_char d = ''0123456789'' ! d"

fun nat_digits :: "nat \<Rightarrow> string" where
  "nat_digits n =
     (if n < 10 then [digit_char n] else nat_digits (n div 10) @ [digit_char (n mod 10)])"

declare nat_digits.simps [simp del]

fun frac_digits :: "nat \<Rightarrow> rat \<Rightarrow> string" where
  "frac_digits 0 r = []"
| "frac_digits (Suc fuel) r =
     (if r = 0 then []
      else digit_char (nat \<lfloor>10 * r\<rfloor>) # frac_digits fuel (10 * r - of_int \<lfloor>10 * r\<rfloor>))"

text \<open>
  \<^verbatim>\<open>Number.prototype.toString\<close> in positional decimal notation. ECMAScript prints the
  shortest digits that read back as the same double, and changes to exponent notation
  below 1e-6 and from 1e21 on; on the integers in between, the two agree. A fraction is
  printed here with at most 17 digits after the point.
\<close>

definition Number_toString :: "rat \<Rightarrow> string" where
  "Number_toString q =
     (let a = \<bar>q\<bar>; i = \<lfloor>a\<rfloor> in
        (if q < 0 then ''-'' else '''') @ nat_digits (nat i) @
        (if a = of_int i then '''' else ''.'' @ frac_digits 17 (a - of_int i)))"

fun number_toString :: "number \<Rightarrow> string" where
  "number_toString (Finite q) = Number_toString q"
| "number_toString PosInfinity = ''Infinity''"
| "number_toString NegInfinity = ''-Infinity''"
| "number_toString NaN = ''NaN''"

text \<open>\<^verbatim>\<open>Array.prototype.join\<close>\<close>

fun join :: "string \<Rightarrow> string list \<Rightarrow> string" where
  "join sep [] = []"
| "join sep [s] = s"
| "join sep (s # t # ss) = s @ sep @ join sep (t # ss)"

text \<open>
  The string a value becomes inside a template literal. An array is joined with commas,
  its nullish elements printed as empty.
\<close>

fun ToString :: "jsval \<Rightarrow> string" where
  "ToString JUndefined = ''undefined''"
| "ToString JNull = ''null''"
| "ToString (JBool b) = (if b then ''true'' else ''false'')"
| "ToString (JNum q) = Number_toString q"
| "ToString (JStr s) = s"
| "ToString (JArr xs) = join '','' (map (\<lambda>x. if nullish x then [] else ToString x) xs)"
| "ToString (JObj kvs) = ''[object Object]''"

subsection \<open>The page and the state of the dashboard\<close>

text \<open>
  The elements the methods write to. The \<^verbatim>\<open>innerHTML\<close> of the statistics grid is the list
  of its cards and that of the voting panel the list of its rows; a child of the events
  container is the event its \<^verbatim>\<open>event-item\<close> was rendered from, the first child first.
  \<open>inserted\<close> counts the calls of \<^verbatim>\<open>insertAdjacentHTML\<close> on the events container, that
  is, how many times an event has been rendered.
\<close>

record stat_card =
  card_value :: string
  card_label :: string

record voting_class =
  vc_name :: string
  vc_votes :: string
  vc_width :: number
  vc_background :: string
  vc_details :: string

record DOM =
  statusDot :: string
  statusText :: string
  fpsCounter :: string
  statsGrid :: "stat_card list"
  votingStatus :: "voting_class list"
  motionDot :: string
  motionText :: string
  motionArea :: string
  motionContours :: string
  eventsContainer :: "jsval list"
  inserted :: nat

text \<open>
  The \<^verbatim>\<open>readyState\<close> of a WebSocket. The browser keeps every socket the page has created;
  \<open>sockets\<close> lists them in the order of creation and \<open>ws\<close> is the index of the one
  \<^verbatim>\<open>this.ws\<close> refers to. \<open>timeouts\<close> counts the reconnection callbacks that
  \<^verbatim>\<open>setTimeout\<close> holds and has not run yet.
\<close>

datatype readyState = CONNECTING | OPEN | CLOSING | CLOSED

record dashboard =
  ws :: "nat option"
  isConnected :: bool
  seenEventKeys :: "string set"
  document :: DOM
  sockets :: "readyState list"
  timeouts :: nat

subsection \<open>The event list\<close>

text \<open>
  \<^verbatim>\<open>
  eventKey(e) {
      if (e && typeof e.id === 'number') return `id:${e.id}`;
      const ts = e && e.timestamp ? e.timestamp : '';
      const cls = e && e.class_name ? e.class_name : '';
      const fn = e && typeof e.frame_number !== 'undefined' ? e.frame_number : '';
      const zone = e && e.zone ? e.zone : '';
      return `k:${ts}|${cls}|${fn}|${zone}`;
  }
  \<close>
\<close>

definition eventKey :: "jsval \<Rightarrow> string" where
  "eventKey e =
     (if truthy e \<and> is_number (getProp e ''id'') then ''id:'' @ ToString (getProp e ''id'')
      else
        let ts = (if truthy e \<and> truthy (getProp e ''timestamp'')
                  then getProp e ''timestamp'' else JStr []);
            cls = (if truthy e \<and> truthy (getProp e ''class_name'')
                   then getProp e ''class_name'' else JStr []);
            fn = (if truthy e \<and> getProp e ''frame_number'' \<noteq> JUndefined
                  then getProp e ''frame_number'' else JStr []);
            zone = (if truthy e \<and> truthy (getProp e ''zone'')
                    then getProp e ''zone'' else JStr [])
        in ''k:'' @ ToString ts @ ''|'' @ ToString cls @ ''|'' @ ToString fn @ ''|'' @
           ToString zone)"

text \<open>
  \<^verbatim>\<open>
  addEvent(eventData) {
      const key = this.eventKey(eventData);
      if (this.seenEventKeys.has(key)) return;
      this.seenEventKeys.add(key);
      const eventsContainer = document.getElementById('eventsContainer');
      const eventHtml = `... ${eventData.class_name} ...`;
      eventsContainer.insertAdjacentHTML('afterbegin', eventHtml);
      const events = eventsContainer.children;
      if (events.length > 20) {
          eventsContainer.removeChild(events[events.length - 1]);
      }
  }
  \<close>
  Building the HTML reads \<^verbatim>\<open>eventData.class_name\<close>, which throws on a nullish event; the
  key is in the set by then.
\<close>

definition addEvent :: "dashboard \<Rightarrow> jsval \<Rightarrow> js_error option \<times> dashboard" where
  "addEvent this eventData =
     (let key = eventKey eventData in
      if key \<in> seenEventKeys this then (None, this)
      else
        let this1 = this\<lparr>seenEventKeys := insert key (seenEventKeys this)\<rparr> in
        if nullish eventData then (Some TypeError, this1)
        else
          let events = eventData # eventsContainer (document this1);
              events' = (if length events > 20 then butlast events else events)
          in (None, this1\<lparr>document := (document this1)
                \<lparr>eventsContainer := events', inserted := Suc (inserted (document this1))\<rparr>\<rparr>))"

text \<open>
  A sequence of calls of \<open>addEvent\<close>, each from its own invocation of the message
  handler: an exception ends the call that threw and the state stays as that call left it.
\<close>

fun admits :: "dashboard \<Rightarrow> jsval list \<Rightarrow> dashboard" where
  "admits this [] = this"
| "admits this (e # es) = admits (snd (addEvent this e)) es"

subsection \<open>The backfill\<close>

text \<open>
  What \<^verbatim>\<open>fetch('/api/events')\<close> and \<^verbatim>\<open>res.json()\<close> give: the request fails, or there is a
  response with its \<^verbatim>\<open>ok\<close> flag and its body as parsed (\<open>None\<close> when the body is not JSON).
\<close>

datatype response = NetworkError | Response bool "jsval option"

text \<open>
  The elements \<^verbatim>\<open>events[0]\<close>, ..., \<^verbatim>\<open>events[events.length - 1]\<close>. A number, a boolean and
  an object have no \<^verbatim>\<open>length\<close> (an object with a property of that name is not modelled),
  so the loop does not run on them.
\<close>

fun array_elements :: "jsval \<Rightarrow> jsval list" where
  "array_elements (JArr xs) = xs"
| "array_elements (JStr s) = map (\<lambda>c. JStr [c]) s"
| "array_elements _ = []"

text \<open>
  The loop of \<open>loadRecentEvents\<close> over the elements in the order it visits them; an
  exception leaves the loop.
\<close>

fun addEvents :: "dashboard \<Rightarrow> jsval list \<Rightarrow> js_error option \<times> dashboard" where
  "addEvents this [] = (None, this)"
| "addEvents this (e # es) =
     (case addEvent this e of
        (None, this') \<Rightarrow> addEvents this' es
      | (Some err, this') \<Rightarrow> (Some err, this'))"

text \<open>
  \<^verbatim>\<open>
  async loadRecentEvents() {
      try {
          const res = await fetch('/api/events');
          if (!res.ok) return;
          const data = await res.json();
          const events = data.events || [];
          // Add oldest first so latest ends up on top when inserted at beginning
          for (let i = events.length - 1; i >= 0; i--) {
              this.addEvent(events[i]);
          }
      } catch (e) {
          console.warn('Failed to load recent events', e);
      }
  }
  \<close>
  Every exception is caught, so the result is the state alone.
\<close>

definition loadRecentEvents :: "dashboard \<Rightarrow> response \<Rightarrow> dashboard" where
  "loadRecentEvents this res =
     (case res of
        NetworkError \<Rightarrow> this
      | Response ok body \<Rightarrow>
          if \<not> ok then this
          else (case body of
                  None \<Rightarrow> this
                | Some data \<Rightarrow>
                    if nullish data then this
                    else
                      let events = js_or (getProp data ''events'') (JArr [])
                      in snd (addEvents this (rev (array_elements events)))))"

subsection \<open>Arithmetic on numbers\<close>

text \<open>
  \<^verbatim>\<open>ToNumber\<close>, applied by the arithmetic operators to their operands. An object is
  \<^verbatim>\<open>NaN\<close>. JavaScript parses a string, and an array through the string it prints as; that
  parser is not modelled, and a string and an array are read as \<^verbatim>\<open>NaN\<close> here, which is
  what the parser gives on a text that is not a number. The properties below are about
  numeric fields that are JSON numbers.
\<close>

fun ToNumber :: "jsval \<Rightarrow> number" where
  "ToNumber JUndefined = NaN"
| "ToNumber JNull = Finite 0"
| "ToNumber (JBool b) = Finite (if b then 1 else 0)"
| "ToNumber (JNum q) = Finite q"
| "ToNumber (JStr s) = NaN"
| "ToNumber (JArr xs) = NaN"
| "ToNumber (JObj kvs) = NaN"

text \<open>\<^verbatim>\<open>a / b\<close>\<close>

fun num_div :: "number \<Rightarrow> number \<Rightarrow> number" where
  "num_div NaN b = NaN"
| "num_div a NaN = NaN"
| "num_div (Finite a) (Finite b) =
     (if b \<noteq> 0 then Finite (a / b)
      else if a = 0 then NaN else if 0 < a then PosInfinity else NegInfinity)"
| "num_div (Finite a) b = Finite 0"
| "num_div PosInfinity (Finite b) = (if 0 \<le> b then PosInfinity else NegInfinity)"
| "num_div NegInfinity (Finite b) = (if 0 \<le> b then NegInfinity else PosInfinity)"
| "num_div a b = NaN"

text \<open>\<^verbatim>\<open>a * b\<close>\<close>

fun num_mul :: "number \<Rightarrow> number \<Rightarrow> number" where
  "num_mul NaN b = NaN"
| "num_mul a NaN = NaN"
| "num_mul (Finite a) (Finite b) = Finite (a * b)"
| "num_mul (Finite a) PosInfinity =
     (if a = 0 then NaN else if 0 < a then PosInfinity else NegInfinity)"
| "num_mul (Finite a) NegInfinity =
     (if a = 0 then NaN else if 0 < a then NegInfinity else PosInfinity)"
| "num_mul PosInfinity (Finite b) =
     (if b = 0 then NaN else if 0 < b then PosInfinity else NegInfinity)"
| "num_mul NegInfinity (Finite b) =
     (if b = 0 then NaN else if 0 < b then NegInfinity else PosInfinity)"
| "num_mul PosInfinity PosInfinity = PosInfinity"
| "num_mul NegInfinity NegInfinity = PosInfinity"
| "num_mul a b = NegInfinity"

text \<open>\<^verbatim>\<open>a % b\<close>: the remainder has the sign of the dividend.\<close>

definition truncate :: "rat \<Rightarrow> int" where
  "truncate q = (if 0 \<le> q then \<lfloor>q\<rfloor> else \<lceil>q\<rceil>)"

fun num_rem :: "number \<Rightarrow> number \<Rightarrow> number" where
  "num_rem (Finite a) (Finite b) =
     (if b = 0 then NaN else Finite (a - b * of_int (truncate (a / b))))"
| "num_rem (Finite a) PosInfinity = Finite a"
| "num_rem (Finite a) NegInfinity = Finite a"
| "num_rem a b = NaN"

text \<open>\<^verbatim>\<open>Math.floor(a)\<close>\<close>

fun Math_floor :: "number \<Rightarrow> number" where
  "Math_floor (Finite a) = Finite (of_int \<lfloor>a\<rfloor>)"
| "Math_floor a = a"

text \<open>\<^verbatim>\<open>a >= b\<close>: false when an operand is \<^verbatim>\<open>NaN\<close>.\<close>

fun num_ge :: "number \<Rightarrow> number \<Rightarrow> bool" where
  "num_ge NaN b = False"
| "num_ge a NaN = False"
| "num_ge (Finite a) (Finite b) = (b \<le> a)"
| "num_ge PosInfinity b = True"
| "num_ge a NegInfinity = True"
| "num_ge a b = False"

text \<open>\<^verbatim>\<open>Math.min(a, b)\<close>: \<^verbatim>\<open>NaN\<close> when an operand is \<^verbatim>\<open>NaN\<close>.\<close>

fun Math_min :: "number \<Rightarrow> number \<Rightarrow> number" where
  "Math_min NaN b = NaN"
| "Math_min a NaN = NaN"
| "Math_min a b = (if num_ge a b then b else a)"

text \<open>
  \<^verbatim>\<open>q.toFixed(1)\<close>: the nearest number with one digit after the point, the larger one
  when two are as near (exponent notation from 1e21 on is not modelled).
\<close>

definition toFixed1 :: "rat \<Rightarrow> string" where
  "toFixed1 q =
     (let n = nat \<lfloor>\<bar>q\<bar> * 10 + 1 / 2\<rfloor> in
        (if q < 0 then ''-'' else '''') @ nat_digits (n div 10) @ ''.'' @ nat_digits (n mod 10))"

text \<open>\<^verbatim>\<open>s.toUpperCase()\<close> on the ASCII letters; other characters are kept.\<close>

definition toUpperCase :: "string \<Rightarrow> string" where
  "toUpperCase s =
     map (\<lambda>c. if 97 \<le> (of_char c :: nat) \<and> (of_char c :: nat) \<le> 122
               then char_of ((of_char c :: nat) - 32) else c) s"

subsection \<open>The statistics\<close>

type_synonym outcome = "js_error option \<times> dashboard"

text \<open>Statements in sequence: an exception skips what follows.\<close>

definition and_then :: "outcome \<Rightarrow> (dashboard \<Rightarrow> outcome) \<Rightarrow> outcome" where
  "and_then r f = (case r of (None, this) \<Rightarrow> f this | (Some err, this) \<Rightarrow> (Some err, this))"

text \<open>
  \<^verbatim>\<open>
  formatUptime(seconds) {
      const hours = Math.floor(seconds / 3600);
      const minutes = Math.floor((seconds % 3600) / 60);
      return `${hours}h ${minutes}m`;
  }
  \<close>
\<close>

definition formatUptime :: "jsval \<Rightarrow> string" where
  "formatUptime seconds =
     (let hours = Math_floor (num_div (ToNumber seconds) (Finite 3600));
          minutes = Math_floor (num_div (num_rem (ToNumber seconds) (Finite 3600)) (Finite 60))
      in number_toString hours @ ''h '' @ number_toString minutes @ ''m'')"

text \<open>
  \<^verbatim>\<open>
  updateStatsGrid(stats) {
      const statsGrid = document.getElementById('statsGrid');
      const statCards = [
          { label: 'Total Detections', value: stats.total_detections || 0 },
          { label: 'Alerts Sent', value: stats.alerts_sent || 0 },
          { label: 'Current Frame', value: stats.frame_number || 0 },
          { label: 'Uptime', value: this.formatUptime(stats.uptime || 0) }
      ];
      statsGrid.innerHTML = statCards.map(card => `...${card.value}...${card.label}...`).join('');
  }
  \<close>
\<close>

definition statCards :: "jsval \<Rightarrow> stat_card list" where
  "statCards stats =
     [\<lparr>card_value = ToString (js_or (getProp stats ''total_detections'') (JNum 0)),
       card_label = ''Total Detections''\<rparr>,
      \<lparr>card_value = ToString (js_or (getProp stats ''alerts_sent'') (JNum 0)),
       card_label = ''Alerts Sent''\<rparr>,
      \<lparr>card_value = ToString (js_or (getProp stats ''frame_number'') (JNum 0)),
       card_label = ''Current Frame''\<rparr>,
      \<lparr>card_value = formatUptime (js_or (getProp stats ''uptime'') (JNum 0)),
       card_label = ''Uptime''\<rparr>]"

definition updateStatsGrid :: "dashboard \<Rightarrow> jsval \<Rightarrow> outcome" where
  "updateStatsGrid this stats =
     (if nullish stats then (Some TypeError, this)
      else (None, this\<lparr>document := (document this)\<lparr>statsGrid := statCards stats\<rparr>\<rparr>))"

text \<open>
  \<^verbatim>\<open>Object.entries(v)\<close> of a value that is not nullish: the properties of an object in
  their order, the elements of an array or the characters of a string under their indices.
\<close>

fun Object_entries :: "jsval \<Rightarrow> (string \<times> jsval) list" where
  "Object_entries (JObj kvs) = kvs"
| "Object_entries (JArr xs) = zip (map nat_digits [0..<length xs]) xs"
| "Object_entries (JStr s) = zip (map nat_digits [0..<length s]) (map (\<lambda>c. JStr [c]) s)"
| "Object_entries _ = []"

text \<open>
  \<^verbatim>\<open>
  updateVotingStatus(votingData) {
      const votingStatus = document.getElementById('votingStatus');
      const votingHtml = Object.entries(votingData).map(([className, data]) => {
          const percentage = (data.current_votes / data.votes_required) * 100;
          const progressColor = percentage >= 100 ? '#28a745' : '#ffc107';
          return `
              ... <strong>${className.toUpperCase()}</strong>
                  <span>${data.current_votes}/${data.votes_required} votes</span>
              ... <div class="voting-bar"
                    style="width: ${Math.min(percentage, 100)}%; background: ${progressColor}"></div>
              ... Window: ${data.history_length}/${data.window_size} frames ...`;
      }).join('');
      votingStatus.innerHTML = votingHtml;
  }
  \<close>
  The green \<^verbatim>\<open>#28a745\<close> is the colour of a complete vote, the amber \<^verbatim>\<open>#ffc107\<close> that of a
  vote in progress. The width of the bar is kept as a number.
\<close>

definition percentage :: "jsval \<Rightarrow> number" where
  "percentage data =
     num_mul (num_div (ToNumber (getProp data ''current_votes''))
                      (ToNumber (getProp data ''votes_required''))) (Finite 100)"

definition progressColor :: "jsval \<Rightarrow> string" where
  "progressColor data = (if num_ge (percentage data) (Finite 100) then ''#28a745'' else ''#ffc107'')"

definition votingHtml :: "string \<times> jsval \<Rightarrow> voting_class" where
  "votingHtml entry =
     (case entry of (className, data) \<Rightarrow>
        \<lparr>vc_name = toUpperCase className,
         vc_votes = ToString (getProp data ''current_votes'') @ ''/'' @
                    ToString (getProp data ''votes_required'') @ '' votes'',
         vc_width = Math_min (percentage data) (Finite 100),
         vc_background = progressColor data,
         vc_details = ''Window: '' @ ToString (getProp data ''history_length'') @ ''/'' @
                      ToString (getProp data ''window_size'') @ '' frames''\<rparr>)"

definition updateVotingStatus :: "dashboard \<Rightarrow> jsval \<Rightarrow> outcome" where
  "updateVotingStatus this votingData =
     (if nullish votingData then (Some TypeError, this)
      else if list_ex (\<lambda>entry. nullish (snd entry)) (Object_entries votingData)
      then (Some TypeError, this)
      else (None, this\<lparr>document := (document this)
              \<lparr>votingStatus := map votingHtml (Object_entries votingData)\<rparr>\<rparr>))"

text \<open>
  \<^verbatim>\<open>
  updateMotionStatus(motionData) {
      ...
      if (motionData.detected) {
          motionDot.className = 'motion-dot active';
          motionText.textContent = 'Motion Detected';
      } else {
          motionDot.className = 'motion-dot';
          motionText.textContent = 'No Motion';
      }
      motionArea.textContent = motionData.area || 0;
      motionContours.textContent = motionData.contours || 0;
  }
  \<close>
\<close>

definition updateMotionStatus :: "dashboard \<Rightarrow> jsval \<Rightarrow> outcome" where
  "updateMotionStatus this motionData =
     (if nullish motionData then (Some TypeError, this)
      else (None, this\<lparr>document := (document this)
              \<lparr>motionDot := (if truthy (getProp motionData ''detected'')
                              then ''motion-dot active'' else ''motion-dot''),
               motionText := (if truthy (getProp motionData ''detected'')
                              then ''Motion Detected'' else ''No Motion''),
               motionArea := ToString (js_or (getProp motionData ''area'') (JNum 0)),
               motionContours := ToString (js_or (getProp motionData ''contours'') (JNum 0))\<rparr>\<rparr>))"

text \<open>
  \<^verbatim>\<open>
  updateStats(stats) {
      if (stats.fps) {
          document.getElementById('fpsCounter').textContent = `FPS: ${stats.fps.toFixed(1)}`;
      }
      this.updateStatsGrid(stats);
      if (stats.temporal_voting) {
          this.updateVotingStatus(stats.temporal_voting);
      }
      if (stats.motion) {
          this.updateMotionStatus(stats.motion);
      }
  }
  \<close>
  Only a number has \<^verbatim>\<open>toFixed\<close>.
\<close>

definition updateFps :: "dashboard \<Rightarrow> jsval \<Rightarrow> outcome" where
  "updateFps this fps =
     (case fps of
        JNum q \<Rightarrow> (None, this\<lparr>document := (document this)
                     \<lparr>fpsCounter := ''FPS: '' @ toFixed1 q\<rparr>\<rparr>)
      | _ \<Rightarrow> (Some TypeError, this))"

definition updateStats :: "dashboard \<Rightarrow> jsval \<Rightarrow> outcome" where
  "updateStats this stats =
     (if nullish stats then (Some TypeError, this)
      else
        and_then (if truthy (getProp stats ''fps'')
                  then updateFps this (getProp stats ''fps'') else (None, this))
        (\<lambda>this. and_then (updateStatsGrid this stats)
        (\<lambda>this. and_then (if truthy (getProp stats ''temporal_voting'')
                           then updateVotingStatus this (getProp stats ''temporal_voting'')
                           else (None, this))
        (\<lambda>this. if truthy (getProp stats ''motion'')
                 then updateMotionStatus this (getProp stats ''motion'')
                 else (None, this)))))"

subsection \<open>The connection\<close>

text \<open>
  \<^verbatim>\<open>
  updateConnectionStatus(status, text) {
      ...
      statusDot.className = `status-dot ${status}`;
      statusText.textContent = text;
  }
  \<close>
\<close>

definition updateConnectionStatus :: "dashboard \<Rightarrow> string \<Rightarrow> string \<Rightarrow> dashboard" where
  "updateConnectionStatus this status text =
     this\<lparr>document := (document this)
       \<lparr>statusDot := ''status-dot '' @ status, statusText := text\<rparr>\<rparr>"

text \<open>
  \<^verbatim>\<open>
  connectWebSocket() {
      const wsUrl = `ws://${window.location.host}/ws`;
      this.ws = new WebSocket(wsUrl);
      this.ws.onopen = ...; this.ws.onmessage = ...; this.ws.onclose = ...; this.ws.onerror = ...;
  }
  \<close>
  A new socket is connecting. Nothing is done to the socket \<^verbatim>\<open>this.ws\<close> referred to before.
\<close>

definition connectWebSocket :: "dashboard \<Rightarrow> dashboard" where
  "connectWebSocket this =
     this\<lparr>ws := Some (length (sockets this)), sockets := sockets this @ [CONNECTING]\<rparr>"

text \<open>
  \<^verbatim>\<open>
  this.ws.onopen = () => {
      this.isConnected = true;
      this.updateConnectionStatus('connected', 'Connected');
  };
  this.ws.onclose = () => {
      this.isConnected = false;
      this.updateConnectionStatus('error', 'Disconnected');
      // Reconnect after 3 seconds
      setTimeout(() => { this.connectWebSocket(); }, 3000);
  };
  this.ws.onerror = (error) => {
      this.updateConnectionStatus('error', 'Connection Error');
  };
  \<close>
\<close>

definition onopen :: "dashboard \<Rightarrow> dashboard" where
  "onopen this = updateConnectionStatus (this\<lparr>isConnected := True\<rparr>) ''connected'' ''Connected''"

definition onclose :: "dashboard \<Rightarrow> dashboard" where
  "onclose this =
     (let this1 = updateConnectionStatus (this\<lparr>isConnected := False\<rparr>) ''error'' ''Disconnected''
      in this1\<lparr>timeouts := Suc (timeouts this1)\<rparr>)"

definition onerror :: "dashboard \<Rightarrow> dashboard" where
  "onerror this = updateConnectionStatus this ''error'' ''Connection Error''"

text \<open>
  \<^verbatim>\<open>
  this.ws.onmessage = (event) => {
      const data = JSON.parse(event.data);
      if (data.type === 'stats') {
          this.updateStats(data.data);
      } else if (data.type === 'event') {
          this.addEvent(data.data);
      }
  };
  \<close>
  \<^verbatim>\<open>JSON.parse\<close> is the browser's; it is a parameter here, \<open>None\<close> on a text that is not
  JSON, where \<^verbatim>\<open>JSON.parse\<close> throws a SyntaxError. Nothing in the handler catches it.
\<close>

definition onmessage :: "(string \<Rightarrow> jsval option) \<Rightarrow> dashboard \<Rightarrow> string \<Rightarrow> outcome" where
  "onmessage JSON_parse this event_data =
     (case JSON_parse event_data of
        None \<Rightarrow> (Some SyntaxError, this)
      | Some data \<Rightarrow>
          if nullish data then (Some TypeError, this)
          else if getProp data ''type'' = JStr ''stats'' then updateStats this (getProp data ''data'')
          else if getProp data ''type'' = JStr ''event'' then addEvent this (getProp data ''data'')
          else (None, this))"

text \<open>
  \<^verbatim>\<open>
  constructor() {
      this.ws = null;
      this.isConnected = false;
      this.seenEventKeys = new Set();
      this.connectWebSocket();
      this.updateElements();
      this.loadRecentEvents();
  }
  \<close>
  The state when the constructor returns, on a page \<open>doc\<close>. \<open>updateElements\<close> starts the
  heartbeat, which writes to no field and no element; \<open>loadRecentEvents\<close> is waiting for
  its response.
\<close>

definition AlertGateDashboard :: "DOM \<Rightarrow> dashboard" where
  "AlertGateDashboard doc =
     connectWebSocket \<lparr>ws = None, isConnected = False, seenEventKeys = {}, document = doc,
                       sockets = [], timeouts = 0\<rparr>"

text \<open>A page whose elements are all empty.\<close>

definition blank_page :: DOM where
  "blank_page = \<lparr>statusDot = [], statusText = [], fpsCounter = [], statsGrid = [],
                  votingStatus = [], motionDot = [], motionText = [], motionArea = [],
                  motionContours = [], eventsContainer = [], inserted = 0\<rparr>"

text \<open>
  What can happen to the page once the constructor has run. The browser opens a connecting
  socket, starts closing a socket, or closes one that is not closed yet, and calls the
  handler the event has; it reports an error on a socket; it delivers a frame on an open
  socket; it runs a reconnection callback that is due; the response of the backfill
  arrives.
\<close>

inductive step :: "(string \<Rightarrow> jsval option) \<Rightarrow> dashboard \<Rightarrow> dashboard \<Rightarrow> bool"
  for JSON_parse :: "string \<Rightarrow> jsval option" where
  opened: "i < length (sockets this) \<Longrightarrow> sockets this ! i = CONNECTING \<Longrightarrow>
     step JSON_parse this (onopen (this\<lparr>sockets := (sockets this)[i := OPEN]\<rparr>))"
| closing: "i < length (sockets this) \<Longrightarrow> sockets this ! i \<noteq> CLOSED \<Longrightarrow>
     step JSON_parse this (this\<lparr>sockets := (sockets this)[i := CLOSING]\<rparr>)"
| closed: "i < length (sockets this) \<Longrightarrow> sockets this ! i \<noteq> CLOSED \<Longrightarrow>
     step JSON_parse this (onclose (this\<lparr>sockets := (sockets this)[i := CLOSED]\<rparr>))"
| error: "i < length (sockets this) \<Longrightarrow> step JSON_parse this (onerror this)"
| message: "i < length (sockets this) \<Longrightarrow> sockets this ! i = OPEN \<Longrightarrow>
     step JSON_parse this (snd (onmessage JSON_parse this event_data))"
| timeout: "0 < timeouts this \<Longrightarrow>
     step JSON_parse this (connectWebSocket (this\<lparr>timeouts := timeouts this - 1\<rparr>))"
| backfill: "step JSON_parse this (loadRecentEvents this res)"

inductive reachable :: "(string \<Rightarrow> jsval option) \<Rightarrow> DOM \<Rightarrow> dashboard \<Rightarrow> bool"
  for JSON_parse :: "string \<Rightarrow> jsval option" and doc :: DOM where
  constructed: "reachable JSON_parse doc (AlertGateDashboard doc)"
| after: "reachable JSON_parse doc this \<Longrightarrow> step JSON_parse this this' \<Longrightarrow>
     reachable JSON_parse doc this'"

text \<open>The channels that are not closed.\<close>

definition active_channels :: "dashboard \<Rightarrow> nat" where
  "active_channels this = length (filter (\<lambda>r. r \<noteq> CLOSED) (sockets this))"

section \<open>Properties of the event list\<close>

lemma addEvent_seen:
  "seenEventKeys (snd (addEvent this e)) = insert (eventKey e) (seenEventKeys this)"
  by (auto simp: addEvent_def Let_def)

lemma addEvent_known: "eventKey e \<in> seenEventKeys this \<Longrightarrow> addEvent this e = (None, this)"
  by (simp add: addEvent_def)

lemma addEvent_sockets: "sockets (snd (addEvent this e)) = sockets this"
  and addEvent_timeouts: "timeouts (snd (addEvent this e)) = timeouts this"
  by (simp_all add: addEvent_def Let_def)









text \<open>
  Claim C3. A second call of \<open>addEvent\<close> with the same event returns at once and leaves
  the state as the first call left it: the list, the set of seen keys and the number of
  events rendered are those after one call. So does any call with an event whose key has
  been seen.
\<close>

theorem admit_twice:
  "addEvent (snd (addEvent this e)) e = (None, snd (addEvent this e)) \<and>
   admits this [e, e] = admits this [e] \<and>
   inserted (document (admits this [e, e])) = inserted (document (admits this [e])) \<and>
   (eventKey e' \<in> seenEventKeys this \<longrightarrow> addEvent this e' = (None, this))"
  by (simp add: addEvent_known addEvent_seen)

theorem admit_twice_witness:
  "eventKey (JObj [(''id'', JNum 7), (''zone'', JStr ''gate'')])
     \<in> seenEventKeys (snd (addEvent (AlertGateDashboard blank_page)
          (JObj [(''id'', JNum 7), (''class_name'', JStr ''cat'')]))) \<and>
   addEvent (snd (addEvent (AlertGateDashboard blank_page)
               (JObj [(''id'', JNum 7), (''class_name'', JStr ''cat'')])))
     (JObj [(''id'', JNum 7), (''zone'', JStr ''gate'')]) =
   (None, snd (addEvent (AlertGateDashboard blank_page)
                 (JObj [(''id'', JNum 7), (''class_name'', JStr ''cat'')])))"
proof -
  have seen: "eventKey (JObj [(''id'', JNum 7), (''zone'', JStr ''gate'')])
     \<in> seenEventKeys (snd (addEvent (AlertGateDashboard blank_page)
          (JObj [(''id'', JNum 7), (''class_name'', JStr ''cat'')])))"
    by (simp add: addEvent_seen eventKey_def)
  show ?thesis
    using seen admit_twice [of "snd (addEvent (AlertGateDashboard blank_page)
        (JObj [(''id'', JNum 7), (''class_name'', JStr ''cat'')]))" _
        "JObj [(''id'', JNum 7), (''zone'', JStr ''gate'')]"]
    by blast
qed









section \<open>Properties of the event key\<close>






section \<open>The set of seen keys\<close>





section \<open>Properties of the statistics\<close>

text \<open>What each of the four updates leaves as it is.\<close>

lemma updateFps_frame:
  "statsGrid (document (snd (updateFps this v))) = statsGrid (document this)"
  "votingStatus (document (snd (updateFps this v))) = votingStatus (document this)"
  "motionDot (document (snd (updateFps this v))) = motionDot (document this)"
  "motionText (document (snd (updateFps this v))) = motionText (document this)"
  "motionArea (document (snd (updateFps this v))) = motionArea (document this)"
  "motionContours (document (snd (updateFps this v))) = motionContours (document this)"
  "sockets (snd (updateFps this v)) = sockets this"
  "timeouts (snd (updateFps this v)) = timeouts this"
  by (simp_all add: updateFps_def split: jsval.splits)

lemma updateStatsGrid_frame:
  "fpsCounter (document (snd (updateStatsGrid this v))) = fpsCounter (document this)"
  "votingStatus (document (snd (updateStatsGrid this v))) = votingStatus (document this)"
  "motionDot (document (snd (updateStatsGrid this v))) = motionDot (document this)"
  "motionText (document (snd (updateStatsGrid this v))) = motionText (document this)"
  "motionArea (document (snd (updateStatsGrid this v))) = motionArea (document this)"
  "motionContours (document (snd (updateStatsGrid this v))) = motionContours (document this)"
  "sockets (snd (updateStatsGrid this v)) = sockets this"
  "timeouts (snd (updateStatsGrid this v)) = timeouts this"
  by (simp_all add: updateStatsGrid_def)

lemma updateVotingStatus_frame:
  "fpsCounter (document (snd (updateVotingStatus this v))) = fpsCounter (document this)"
  "statsGrid (document (snd (updateVotingStatus this v))) = statsGrid (document this)"
  "motionDot (document (snd (updateVotingStatus this v))) = motionDot (document this)"
  "motionText (document (snd (updateVotingStatus this v))) = motionText (document this)"
  "motionArea (document (snd (updateVotingStatus this v))) = motionArea (document this)"
  "motionContours (document (snd (updateVotingStatus this v))) = motionContours (document this)"
  "sockets (snd (updateVotingStatus this v)) = sockets this"
  "timeouts (snd (updateVotingStatus this v)) = timeouts this"
  by (simp_all add: updateVotingStatus_def)

lemma updateMotionStatus_frame:
  "fpsCounter (document (snd (updateMotionStatus this v))) = fpsCounter (document this)"
  "statsGrid (document (snd (updateMotionStatus this v))) = statsGrid (document this)"
  "votingStatus (document (snd (updateMotionStatus this v))) = votingStatus (document this)"
  "sockets (snd (updateMotionStatus this v)) = sockets this"
  "timeouts (snd (updateMotionStatus this v)) = timeouts this"
  by (simp_all add: updateMotionStatus_def)

lemma snd_and_then:
  "snd (and_then r f) = (if fst r = None then snd (f (snd r)) else snd r)"
  by (cases r) (auto simp: and_then_def split: option.splits)


lemmas stats_frame = updateFps_frame updateStatsGrid_frame updateVotingStatus_frame
  updateMotionStatus_frame

lemma updateStats_sockets:
  "sockets (snd (updateStats this stats)) = sockets this"
  "timeouts (snd (updateStats this stats)) = timeouts this"
  by (simp_all add: updateStats_def snd_and_then stats_frame)



















section \<open>Properties of the connection\<close>

lemma filter_update_same:
  "i < length xs \<Longrightarrow> P (xs ! i) \<Longrightarrow> P v \<Longrightarrow>
   length (filter P (xs[i := v])) = length (filter P xs)"
proof (induction xs arbitrary: i)
  case Nil
  then show ?case by simp
next
  case (Cons x xs)
  then show ?case by (cases i) auto
qed

lemma filter_update_drop:
  "i < length xs \<Longrightarrow> P (xs ! i) \<Longrightarrow> \<not> P v \<Longrightarrow>
   Suc (length (filter P (xs[i := v]))) = length (filter P xs)"
proof (induction xs arbitrary: i)
  case Nil
  then show ?case by simp
next
  case (Cons x xs)
  then show ?case by (cases i) auto
qed

lemma addEvents_sockets:
  "sockets (snd (addEvents this es)) = sockets this \<and>
   timeouts (snd (addEvents this es)) = timeouts this"
proof (induction es arbitrary: this)
  case Nil
  then show ?case by simp
next
  case (Cons e es)
  obtain r this' where r: "addEvent this e = (r, this')"
    by (cases "addEvent this e")
  then have "sockets this' = sockets this" "timeouts this' = timeouts this"
    using addEvent_sockets [of this e] addEvent_timeouts [of this e] by simp_all
  then show ?case
    using Cons [of this'] r by (cases r) simp_all
qed

lemma loadRecentEvents_sockets:
  "sockets (loadRecentEvents this res) = sockets this"
  "timeouts (loadRecentEvents this res) = timeouts this"
  by (simp_all add: loadRecentEvents_def addEvents_sockets split: response.splits option.splits)

lemma onmessage_sockets:
  "sockets (snd (onmessage JSON_parse this event_data)) = sockets this"
  "timeouts (snd (onmessage JSON_parse this event_data)) = timeouts this"
  by (simp_all add: onmessage_def updateStats_sockets addEvent_sockets addEvent_timeouts
      split: option.splits)

lemma handlers_sockets:
  "sockets (onopen this) = sockets this" "timeouts (onopen this) = timeouts this"
  "sockets (onerror this) = sockets this" "timeouts (onerror this) = timeouts this"
  "sockets (onclose this) = sockets this" "timeouts (onclose this) = Suc (timeouts this)"
  by (simp_all add: onopen_def onerror_def onclose_def updateConnectionStatus_def Let_def)

lemma step_invariant:
  assumes "step JSON_parse this this'"
    and "active_channels this + timeouts this = 1"
  shows "active_channels this' + timeouts this' = 1"
  using assms
proof (induction rule: step.induct)
  case (opened i this)
  then show ?case
    by (simp add: active_channels_def handlers_sockets filter_update_same)
next
  case (closing i this)
  then show ?case
    by (simp add: active_channels_def filter_update_same)
next
  case (closed i this)
  let ?this' = "onclose (this\<lparr>sockets := (sockets this)[i := CLOSED]\<rparr>)"
  have "Suc (length (filter (\<lambda>r. r \<noteq> CLOSED) ((sockets this)[i := CLOSED]))) =
        length (filter (\<lambda>r. r \<noteq> CLOSED) (sockets this))"
    using closed by (intro filter_update_drop) simp_all
  then have "Suc (active_channels ?this') = active_channels this"
    by (simp add: active_channels_def handlers_sockets)
  moreover have "timeouts ?this' = Suc (timeouts this)"
    by (simp add: handlers_sockets)
  ultimately show ?case
    using closed.prems by linarith
next
  case (error i this)
  then show ?case
    by (simp add: active_channels_def handlers_sockets)
next
  case (message i this event_data)
  then show ?case
    by (simp add: active_channels_def onmessage_sockets)
next
  case (timeout this)
  let ?this' = "connectWebSocket (this\<lparr>timeouts := timeouts this - 1\<rparr>)"
  have "active_channels ?this' = Suc (active_channels this)"
    by (simp add: active_channels_def connectWebSocket_def)
  moreover have "timeouts ?this' = timeouts this - 1"
    by (simp add: connectWebSocket_def)
  ultimately show ?case
    using timeout by linarith
next
  case (backfill this res)
  then show ?case
    by (simp add: active_channels_def loadRecentEvents_sockets)
qed

lemma reachable_invariant:
  "reachable JSON_parse doc this \<Longrightarrow> active_channels this + timeouts this = 1"
proof (induction rule: reachable.induct)
  case constructed
  then show ?case
    by (simp add: AlertGateDashboard_def connectWebSocket_def active_channels_def)
next
  case (after this this')
  then show ?case
    by (simp add: step_invariant)
qed

text \<open>
  Claim C5, as the code has it. In every state the page reaches from the constructor by
  the events of the browser, where \<open>connectWebSocket\<close> is called by the constructor and,
  after a socket has closed, by the reconnection callback, at most one channel is not
  closed: there is either one such channel and no reconnection waiting, or none and one
  reconnection waiting.
\<close>

theorem one_channel:
  "reachable JSON_parse doc this \<Longrightarrow>
   active_channels this \<le> 1 \<and> active_channels this + timeouts this = 1"
  using reachable_invariant [of JSON_parse doc this] by simp

theorem one_channel_witness:
  "reachable (\<lambda>s. None) blank_page
     (connectWebSocket ((onclose ((AlertGateDashboard blank_page)
        \<lparr>sockets := (sockets (AlertGateDashboard blank_page))[0 := CLOSED]\<rparr>))
        \<lparr>timeouts := timeouts (onclose ((AlertGateDashboard blank_page)
           \<lparr>sockets := (sockets (AlertGateDashboard blank_page))[0 := CLOSED]\<rparr>)) - 1\<rparr>)) \<and>
   active_channels
     (connectWebSocket ((onclose ((AlertGateDashboard blank_page)
        \<lparr>sockets := (sockets (AlertGateDashboard blank_page))[0 := CLOSED]\<rparr>))
        \<lparr>timeouts := timeouts (onclose ((AlertGateDashboard blank_page)
           \<lparr>sockets := (sockets (AlertGateDashboard blank_page))[0 := CLOSED]\<rparr>)) - 1\<rparr>)) \<le> 1"
proof -
  let ?s0 = "AlertGateDashboard blank_page"
  let ?s1 = "onclose (?s0\<lparr>sockets := (sockets ?s0)[0 := CLOSED]\<rparr>)"
  let ?s2 = "connectWebSocket (?s1\<lparr>timeouts := timeouts ?s1 - 1\<rparr>)"
  have r0: "reachable (\<lambda>s. None) blank_page ?s0"
    by (rule reachable.constructed)
  have "step (\<lambda>s. None) ?s0 ?s1"
    by (rule step.closed) (simp_all add: AlertGateDashboard_def connectWebSocket_def)
  with r0 have r1: "reachable (\<lambda>s. None) blank_page ?s1"
    by (rule reachable.after)
  have "step (\<lambda>s. None) ?s1 ?s2"
    by (rule step.timeout) (simp add: handlers_sockets)
  with r1 have r2: "reachable (\<lambda>s. None) blank_page ?s2"
    by (rule reachable.after)
  from r2 one_channel [OF r2] show ?thesis
    by blast
qed

text \<open>
  Claim C5 as stated fails for a call of \<open>connectWebSocket\<close> while a channel is
  connecting: the method tests nothing and closes nothing, so the second call leaves two
  channels that are not closed.
\<close>

theorem one_channel_counterexample:
  "active_channels (AlertGateDashboard blank_page) = 1 \<and>
   active_channels (connectWebSocket (AlertGateDashboard blank_page)) = 2 \<and>
   \<not> active_channels (connectWebSocket (AlertGateDashboard blank_page)) \<le> 1"
  by (simp add: AlertGateDashboard_def connectWebSocket_def active_channels_def)

section \<open>A frame that is not JSON\<close>

text \<open>
  Claim C1. What the handler does on a frame whose text \<^verbatim>\<open>JSON.parse\<close> rejects: it ends
  with the SyntaxError, which nothing in it catches. The state is the one before the
  frame; no socket has changed.
\<close>

theorem onmessage_not_json:
  "JSON_parse event_data = None \<Longrightarrow>
   onmessage JSON_parse this event_data = (Some SyntaxError, this)"
  by (simp add: onmessage_def)

theorem onmessage_not_json_witness:
  "(\<lambda>s. if s = ''{}'' then Some (JObj []) else None) ''heartbeat'' = None \<and>
   onmessage (\<lambda>s. if s = ''{}'' then Some (JObj []) else None)
     (AlertGateDashboard blank_page) ''heartbeat'' =
   (Some SyntaxError, AlertGateDashboard blank_page)"
proof -
  have none: "(\<lambda>s. if s = ''{}'' then Some (JObj []) else None) ''heartbeat'' = None"
    by simp
  from none onmessage_not_json [of "\<lambda>s. if s = ''{}'' then Some (JObj []) else None"
      "''heartbeat''" "AlertGateDashboard blank_page"]
  show ?thesis
    by blast
qed

end
